theory Spec2Isabelle
  imports Main "HOL-Library.Multiset"
begin

section \<open>git-fast-worktree: the \<open>add\<close> command of main.go\<close>

text \<open>
  The program is one command, \<open>addCmd.RunE\<close>, that talks to the outside world through
  a handful of calls: two \<open>git\<close> subprocesses run for their exit status, one run for its
  output (\<open>gitToplevel\<close>), \<open>filepath.Abs\<close>, \<open>filepath.Join\<close>, \<open>os.Stat\<close>,
  \<open>os.ReadDir\<close>, \<open>unix.Clonefile\<close> and the builtin \<open>println\<close>.
  The model keeps the code's control flow and makes the outside world a record of
  functions (\<open>world\<close>): what each call answers. Every call the code makes is
  appended to a trace, so that "before any subprocess" and "no clone call" are
  statements about that trace.

  Go's \<open>error\<close> values coming from the operating system are kept as their message.
\<close>

type_synonym oserror = string

subsection \<open>Data\<close>

text \<open>
  The lines written with \<open>println\<close>. The durations inside them are wall-clock time
  and are left out; everything else of a line is kept.
\<close>

datatype line =
    WorktreeAddLine                 \<comment> \<open>\<open>worktree add: (%v)\<close>\<close>
  | ClonefileLine int               \<comment> \<open>\<open>clonefile:    %d entries (%v)\<close>\<close>
  | GitResetLine                    \<comment> \<open>\<open>git reset:    (%v)\<close>\<close>
  | BlankLine                       \<comment> \<open>\<open>println("")\<close>\<close>
  | CloneErrorLine string oserror   \<comment> \<open>\<open>  %s: %v\<close> with key and value\<close>
  | TotalLine                       \<comment> \<open>\<open>\ntotal: %v\<close>\<close>
  | WorktreeLine string             \<comment> \<open>\<open>worktree: \<close> followed by dst\<close>

datatype event =
    Subprocess "string list"        \<comment> \<open>\<open>exec.Command\<close> run, with its whole argv\<close>
  | StatCall string                 \<comment> \<open>\<open>os.Stat(dst)\<close>\<close>
  | ReadDirCall string              \<comment> \<open>\<open>os.ReadDir(src)\<close>\<close>
  | ClonefileCall string string     \<comment> \<open>\<open>unix.Clonefile(srcPath, dstPath, CLONE_NOFOLLOW)\<close>\<close>
  | Println line

text \<open>The errors \<open>RunE\<close> returns, one constructor per \<open>fmt.Errorf\<close> of the source.\<close>

datatype error =
    NotARepository oserror          \<comment> \<open>\<open>not a git repository (or any parent): %w\<close>\<close>
  | AbsFailed oserror               \<comment> \<open>\<open>error resolving destination path: %w\<close>\<close>
  | DestinationAlreadyExists string \<comment> \<open>\<open>fatal: '%s' already exists\<close>\<close>
  | ConflictingBranchFlags          \<comment> \<open>\<open>fatal: -b and -B are mutually exclusive\<close>\<close>
  | WorktreeAddFailed               \<comment> \<open>\<open>git worktree add failed\<close>\<close>
  | ReadDirFailed oserror           \<comment> \<open>\<open>error reading source directory: %w\<close>\<close>
  | GitResetFailed oserror          \<comment> \<open>\<open>git reset: %w\<close>\<close>
  | CloneErrorsOccurred int         \<comment> \<open>\<open>%d clone errors occurred\<close>\<close>
  | IndexOutOfRange                 \<comment> \<open>the panic of \<open>args[0]\<close> on an empty slice\<close>
  | ArgsRejected                    \<comment> \<open>\<open>cobra.RangeArgs(1, 2)\<close> refusing the arguments\<close>

text \<open>The package-level flag variables, as \<open>init\<close> binds them.\<close>

record flags =
  branchCreate :: string
  branchReset :: string
  noTrack :: bool

text \<open>
  The outside world. \<open>git_Output\<close> answers \<open>cmd.Output()\<close> (an error or the bytes
  of stdout), \<open>git_Run\<close> answers \<open>cmd.Run()\<close> (\<open>None\<close> is a nil error, exit status
  zero); both take the argv. \<open>os_Stat\<close> returns the error of \<open>os.Stat\<close>, so
  \<open>None\<close> means the path exists. \<open>os_ReadDir\<close> gives the names of the entries.
  \<open>schedule\<close> is the Go scheduler during the fan-out: given the tasks in the order
  the loop launched them, the order in which they run to completion.
\<close>

record world =
  git_Output :: "string list \<Rightarrow> oserror + string"
  git_Run :: "string list \<Rightarrow> oserror option"
  strings_TrimSpace :: "string \<Rightarrow> string"
  filepath_Abs :: "string \<Rightarrow> oserror + string"
  filepath_Join :: "string \<Rightarrow> string \<Rightarrow> string"
  os_Stat :: "string \<Rightarrow> oserror option"
  os_ReadDir :: "string \<Rightarrow> oserror + string list"
  unix_Clonefile :: "string \<Rightarrow> string \<Rightarrow> oserror option"
  schedule :: "string list \<Rightarrow> string list"

text \<open>
  What a run leaves behind: the trace of its calls, and the two variables the
  goroutines share. \<open>cloned\<close> is an \<open>atomic.Int64\<close> and \<open>errCount\<close> an \<open>int\<close>;
  both only count elements of a Go slice, whose length is itself an \<open>int\<close> of 64 bits,
  so neither can wrap and both are modelled as \<open>int\<close>. \<open>cloneErrors\<close> is a
  \<open>sync.Map\<close>: a list of key-value pairs with each key at most once.
\<close>

record run_state =
  trace :: "event list"
  cloned :: int
  cloneErrors :: "(string \<times> oserror) list"

definition emit :: "event list \<Rightarrow> run_state \<Rightarrow> run_state" where
  "emit es s = s\<lparr>trace := trace s @ es\<rparr>"

subsection \<open>\<open>sync.Map\<close>: \<open>Store\<close> and \<open>Range\<close>\<close>

text \<open>\<open>Store\<close> sets the value of a key, replacing the value the key had.\<close>

fun Store :: "string \<Rightarrow> oserror \<Rightarrow> (string \<times> oserror) list \<Rightarrow> (string \<times> oserror) list" where
  "Store k v [] = [(k, v)]"
| "Store k v ((k', v') # m) = (if k' = k then (k, v) # m else (k', v') # Store k v m)"

text \<open>
  The callback handed to \<open>cloneErrors.Range\<close>, with the captured \<open>errCount\<close> and the
  lines printed so far as its state. \<open>Range\<close> calls it once per key; the order in which
  Go visits the keys is not specified, and the model visits them as the list has them.
\<close>

fun range_callback :: "string \<times> oserror \<Rightarrow> int \<times> event list \<Rightarrow> int \<times> event list" where
  "range_callback (key, val) (errCount, out) =
     (errCount + 1,
      out @ (if errCount = 0 then [Println BlankLine] else []) @ [Println (CloneErrorLine key val)])"

definition Range :: "(string \<times> oserror) list \<Rightarrow> int \<times> event list" where
  "Range m = fold range_callback m (0, [])"

subsection \<open>\<open>gitToplevel\<close>\<close>

definition rev_parse_argv :: "string list" where
  "rev_parse_argv = [''git'', ''rev-parse'', ''--show-toplevel'']"

definition gitToplevel :: "world \<Rightarrow> (oserror + string) \<times> event list" where
  "gitToplevel w =
     (case git_Output w rev_parse_argv of
        Inl err \<Rightarrow> (Inl err, [Subprocess rev_parse_argv])
      | Inr out \<Rightarrow> (Inr (strings_TrimSpace w out), [Subprocess rev_parse_argv]))"

subsection \<open>\<open>addCmd.RunE\<close>\<close>

text \<open>Lines 36 to 59: the source root, the destination, the commit-ish and the two checks.\<close>

definition preflight ::
  "world \<Rightarrow> flags \<Rightarrow> string list \<Rightarrow> (error + string \<times> string \<times> string) \<times> event list" where
  "preflight w fl args =
     (case gitToplevel w of
        (Inl err, tr) \<Rightarrow> (Inl (NotARepository err), tr)
      | (Inr src, tr) \<Rightarrow>
          (case args of
             [] \<Rightarrow> (Inl IndexOutOfRange, tr)
           | a # _ \<Rightarrow>
               (case filepath_Abs w a of
                  Inl err \<Rightarrow> (Inl (AbsFailed err), tr)
                | Inr dst \<Rightarrow>
                    (let commitish = (if length args = 2 then args ! 1 else [])
                     in if os_Stat w dst = None
                        then (Inl (DestinationAlreadyExists dst), tr @ [StatCall dst])
                        else if branchCreate fl \<noteq> [] \<and> branchReset fl \<noteq> []
                        then (Inl ConflictingBranchFlags, tr @ [StatCall dst])
                        else (Inr (src, dst, commitish), tr @ [StatCall dst])))))"

text \<open>Lines 65 to 79: the arguments of \<open>git worktree add\<close>.\<close>

definition worktreeArgs :: "flags \<Rightarrow> string \<Rightarrow> string \<Rightarrow> string \<Rightarrow> string list" where
  "worktreeArgs fl src dst commitish =
     [''-C'', src, ''worktree'', ''add'', ''--no-checkout'']
     @ (if branchCreate fl \<noteq> [] then [''-b'', branchCreate fl]
        else if branchReset fl \<noteq> [] then [''-B'', branchReset fl]
        else [''--detach''])
     @ (if noTrack fl then [''--no-track''] else [])
     @ [dst]
     @ (if commitish \<noteq> [] then [commitish] else [])"

definition reset_argv :: "string \<Rightarrow> string list" where
  "reset_argv dst = [''git'', ''-C'', dst, ''reset'', ''--no-refresh'']"

text \<open>Lines 94 to 100: the loop that fills \<open>toClone\<close>, with the slice as accumulator.\<close>

fun toClone_loop :: "string list \<Rightarrow> string list \<Rightarrow> string list" where
  "toClone_loop [] acc = acc"
| "toClone_loop (e # es) acc =
     (if e = ''.git'' then toClone_loop es acc else toClone_loop es (acc @ [e]))"

definition toClone :: "string list \<Rightarrow> string list" where
  "toClone entries = toClone_loop entries []"

text \<open>
  Lines 110 to 119: the body of one goroutine. The loop variable \<open>name\<close> is the
  goroutine's own (the per-iteration variables of Go 1.22). The goroutine touches the
  shared variables in one atomic operation, after its clone call, so it is one step.
\<close>

definition task :: "world \<Rightarrow> string \<Rightarrow> string \<Rightarrow> string \<Rightarrow> run_state \<Rightarrow> run_state" where
  "task w src dst name s =
     (let srcPath = filepath_Join w src name;
          dstPath = filepath_Join w dst name;
          s' = emit [ClonefileCall srcPath dstPath] s
      in case unix_Clonefile w srcPath dstPath of
           Some err \<Rightarrow> s'\<lparr>cloneErrors := Store name err (cloneErrors s')\<rparr>
         | None \<Rightarrow> s'\<lparr>cloned := cloned s' + 1\<rparr>)"

text \<open>
  Lines 107 to 121: one goroutine per name, then \<open>wg.Wait()\<close>. The goroutines run in
  the order the scheduler picks; the state returned is the one after the barrier.
\<close>

definition fanOut :: "world \<Rightarrow> string \<Rightarrow> string \<Rightarrow> string list \<Rightarrow> run_state \<Rightarrow> run_state" where
  "fanOut w src dst names s = fold (task w src dst) (schedule w names) s"

text \<open>Lines 61 to 149: the four phases and the report.\<close>

definition pipeline ::
  "world \<Rightarrow> flags \<Rightarrow> string \<Rightarrow> string \<Rightarrow> string \<Rightarrow> run_state \<Rightarrow> error option \<times> run_state" where
  "pipeline w fl src dst commitish s1 =
     (let argv = ''git'' # worktreeArgs fl src dst commitish;
          s2 = emit [Subprocess argv] s1
      in case git_Run w argv of
           Some err \<Rightarrow> (Some WorktreeAddFailed, s2)
         | None \<Rightarrow>
             (let s3 = emit [Println WorktreeAddLine, ReadDirCall src] s2
              in case os_ReadDir w src of
                   Inl err \<Rightarrow> (Some (ReadDirFailed err), s3)
                 | Inr entries \<Rightarrow>
                     (let s4 = fanOut w src dst (toClone entries) s3;
                          s5 = emit [Println (ClonefileLine (cloned s4)),
                                     Subprocess (reset_argv dst)] s4
                      in case git_Run w (reset_argv dst) of
                           Some err \<Rightarrow> (Some (GitResetFailed err), s5)
                         | None \<Rightarrow>
                             (let (errCount, out) = Range (cloneErrors s5);
                                  s6 = emit ([Println GitResetLine] @ out
                                             @ [Println TotalLine, Println (WorktreeLine dst)]) s5
                              in (if errCount > 0 then Some (CloneErrorsOccurred errCount)
                                  else None, s6)))))"

definition RunE :: "world \<Rightarrow> flags \<Rightarrow> string list \<Rightarrow> error option \<times> run_state" where
  "RunE w fl args =
     (case preflight w fl args of
        (Inl err, tr) \<Rightarrow> (Some err, \<lparr>trace = tr, cloned = 0, cloneErrors = []\<rparr>)
      | (Inr (src, dst, commitish), tr) \<Rightarrow>
          pipeline w fl src dst commitish \<lparr>trace = tr, cloned = 0, cloneErrors = []\<rparr>)"

subsection \<open>\<open>main\<close>\<close>

text \<open>
  \<open>rootCmd.Execute()\<close> for the \<open>add\<close> subcommand: \<open>cobra.RangeArgs(1, 2)\<close> checks the
  number of arguments, then \<open>RunE\<close> runs. Parsing the flags is cobra's and has
  happened already: \<open>flags\<close> holds its result.
\<close>

definition Execute :: "world \<Rightarrow> flags \<Rightarrow> string list \<Rightarrow> error option \<times> run_state" where
  "Execute w fl args =
     (if 1 \<le> length args \<and> length args \<le> 2 then RunE w fl args
      else (Some ArgsRejected, \<lparr>trace = [], cloned = 0, cloneErrors = []\<rparr>))"

text \<open>
  The exit status of the process: \<open>os.Exit(1)\<close> when \<open>Execute\<close> returns an error, the
  status 2 of the Go runtime on a panic, and 0 when \<open>main\<close> returns.
\<close>

definition exit_status :: "error option \<Rightarrow> nat" where
  "exit_status r = (case r of None \<Rightarrow> 0 | Some IndexOutOfRange \<Rightarrow> 2 | Some _ \<Rightarrow> 1)"

definition main :: "world \<Rightarrow> flags \<Rightarrow> string list \<Rightarrow> nat \<times> run_state" where
  "main w fl args = (case Execute w fl args of (r, s) \<Rightarrow> (exit_status r, s))"

subsection \<open>Vocabulary of the properties\<close>

text \<open>
  What the clone call of the entry \<open>name\<close> answers: the call of line 114 with the two
  paths of lines 112 and 113.
\<close>

definition clone_result :: "world \<Rightarrow> string \<Rightarrow> string \<Rightarrow> string \<Rightarrow> oserror option" where
  "clone_result w src dst name =
     unix_Clonefile w (filepath_Join w src name) (filepath_Join w dst name)"

definition clone_call :: "world \<Rightarrow> string \<Rightarrow> string \<Rightarrow> string \<Rightarrow> event" where
  "clone_call w src dst name =
     ClonefileCall (filepath_Join w src name) (filepath_Join w dst name)"

fun is_subprocess :: "event \<Rightarrow> bool" where
  "is_subprocess (Subprocess argv) = True"
| "is_subprocess e = False"

fun is_clone_call :: "event \<Rightarrow> bool" where
  "is_clone_call (ClonefileCall p q) = True"
| "is_clone_call e = False"

fun is_clone_diagnostic :: "event \<Rightarrow> bool" where
  "is_clone_diagnostic (Println (CloneErrorLine k v)) = True"
| "is_clone_diagnostic e = False"

fun is_println :: "event \<Rightarrow> bool" where
  "is_println (Println l) = True"
| "is_println e = False"

text \<open>
  The destination reported at the end of a run: the path of the \<open>worktree:\<close> line when
  the trace ends with the \<open>total:\<close> line and the \<open>worktree:\<close> line, which is how the
  code reports them (lines 143 and 144).
\<close>

fun final_report_rev :: "event list \<Rightarrow> string option" where
  "final_report_rev (Println (WorktreeLine d) # Println TotalLine # es) = Some d"
| "final_report_rev es = None"

definition final_report :: "event list \<Rightarrow> string option" where
  "final_report es = final_report_rev (rev es)"

text \<open>
  The verdict of a run in the words of the specification (its section 4.5), read off
  the answers of the world: \<open>Success\<close> only if registration, listing, every clone and
  the index reset succeeded; \<open>PartialFailure\<close> if registration, listing and index reset
  succeeded and some clone failed; \<open>Failed\<close> otherwise. It is the yardstick the
  code's exit status and report are compared with, not a part of the code.
\<close>

datatype verdict = Success | PartialFailure | Failed

definition spec_verdict :: "world \<Rightarrow> flags \<Rightarrow> string list \<Rightarrow> verdict" where
  "spec_verdict w fl args =
     (if \<not> (1 \<le> length args \<and> length args \<le> 2) then Failed
      else case fst (preflight w fl args) of
             Inl err \<Rightarrow> Failed
           | Inr (src, dst, commitish) \<Rightarrow>
               (case git_Run w (''git'' # worktreeArgs fl src dst commitish) of
                  Some err \<Rightarrow> Failed
                | None \<Rightarrow>
                    (case os_ReadDir w src of
                       Inl err \<Rightarrow> Failed
                     | Inr entries \<Rightarrow>
                         (case git_Run w (reset_argv dst) of
                            Some err \<Rightarrow> Failed
                          | None \<Rightarrow>
                              if \<forall>name \<in> set (toClone entries). clone_result w src dst name = None
                              then Success else PartialFailure))))"

subsection \<open>A concrete world\<close>

text \<open>
  A repository at \<open>/repo\<close> with the entries \<open>src\<close>, \<open>README.md\<close> and \<open>.git\<close>, in
  which every call succeeds and nothing exists at the destination; the scheduler
  completes the tasks in the reverse of their launch order.
\<close>

definition ascii_space :: "char \<Rightarrow> bool" where
  "ascii_space c = (c \<in> set [CHR 0x09, CHR 0x0A, CHR 0x0B, CHR 0x0C, CHR 0x0D, CHR 0x20])"

definition demo_world :: world where
  "demo_world =
     \<lparr>git_Output = (\<lambda>argv. if argv = rev_parse_argv then Inr (''/repo'' @ [CHR 0x0A])
                            else Inl ''exit status 1''),
      git_Run = (\<lambda>argv. None),
      strings_TrimSpace = (\<lambda>s. rev (dropWhile ascii_space (rev (dropWhile ascii_space s)))),
      filepath_Abs = (\<lambda>p. Inr p),
      filepath_Join = (\<lambda>dir name. dir @ ''/'' @ name),
      os_Stat = (\<lambda>p. Some ''no such file or directory''),
      os_ReadDir = (\<lambda>p. if p = ''/repo'' then Inr [''src'', ''README.md'', ''.git'']
                          else Inl ''no such file or directory''),
      unix_Clonefile = (\<lambda>p q. None),
      schedule = rev\<rparr>"

definition demo_flags :: flags where
  "demo_flags = \<lparr>branchCreate = [], branchReset = [], noTrack = False\<rparr>"

definition demo_args :: "string list" where
  "demo_args = [''/tmp/wt'']"

text \<open>
  Variations of it: a listing without \<open>.git\<close>; a clone primitive that refuses
  \<open>README.md\<close>; a destination that exists already; a \<open>git\<close> whose every run for
  its exit status fails; and both branch flags given.
\<close>

definition listing_world :: world where
  "listing_world = demo_world\<lparr>os_ReadDir := (\<lambda>p. Inr [''src'', ''README.md''])\<rparr>"

definition flaky_world :: world where
  "flaky_world =
     demo_world\<lparr>unix_Clonefile :=
       (\<lambda>p q. if p = ''/repo/README.md'' then Some ''operation not permitted'' else None)\<rparr>"

definition occupied_world :: world where
  "occupied_world = demo_world\<lparr>os_Stat := (\<lambda>p. None)\<rparr>"

definition refusing_world :: world where
  "refusing_world = demo_world\<lparr>git_Run := (\<lambda>argv. Some ''exit status 128'')\<rparr>"

definition both_flags :: flags where
  "both_flags = \<lparr>branchCreate = ''feature/x'', branchReset = ''feature/y'', noTrack = False\<rparr>"

section \<open>Lemmas about the model\<close>

lemmas run_defs = RunE_def preflight_def gitToplevel_def pipeline_def fanOut_def task_def emit_def
  Range_def toClone_def worktreeArgs_def reset_argv_def rev_parse_argv_def Execute_def main_def
  exit_status_def clone_result_def clone_call_def

lemma toClone_loop_filter: "toClone_loop es acc = acc @ filter (\<lambda>n. n \<noteq> ''.git'') es"
  by (induction es arbitrary: acc) auto

lemma toClone_filter: "toClone entries = filter (\<lambda>n. n \<noteq> ''.git'') entries"
  by (simp add: toClone_def toClone_loop_filter)

lemma Store_map_of: "map_of (Store k v m) = (map_of m)(k \<mapsto> v)"
  by (induction m) (auto simp: fun_eq_iff)

lemma Store_keys: "fst ` set (Store k v m) = insert k (fst ` set m)"
proof (induction m)
  case Nil
  show ?case by simp
next
  case (Cons p m)
  obtain k' v' where p: "p = (k', v')" by (cases p)
  show ?case
  proof (cases "k' = k")
    case True
    then show ?thesis using p by simp
  next
    case False
    then show ?thesis using p Cons.IH by auto
  qed
qed

lemma Store_distinct: "distinct (map fst m) \<Longrightarrow> distinct (map fst (Store k v m))"
proof (induction m)
  case Nil
  then show ?case by simp
next
  case (Cons p m)
  obtain k' v' where p: "p = (k', v')" by (cases p)
  have "set (map fst (Store k v m)) = insert k (fst ` set m)"
    using Store_keys [of k v m] by simp
  with Cons p show ?case by auto
qed

lemma task_trace: "trace (task w src dst n s) = trace s @ [clone_call w src dst n]"
  by (simp add: task_def emit_def clone_call_def Let_def split: option.splits)

lemma task_cloned:
  "cloned (task w src dst n s) = cloned s + (if clone_result w src dst n = None then 1 else 0)"
  by (simp add: task_def emit_def clone_result_def Let_def split: option.splits)

lemma task_cloneErrors:
  "cloneErrors (task w src dst n s) =
     (case clone_result w src dst n of None \<Rightarrow> cloneErrors s | Some e \<Rightarrow> Store n e (cloneErrors s))"
  by (simp add: task_def emit_def clone_result_def Let_def split: option.splits)

lemma fold_task_trace:
  "trace (fold (task w src dst) ns s) = trace s @ map (clone_call w src dst) ns"
  by (induction ns arbitrary: s) (simp_all add: task_trace)

lemma fold_task_cloned:
  "cloned (fold (task w src dst) ns s) =
     cloned s + int (length (filter (\<lambda>n. clone_result w src dst n = None) ns))"
  by (induction ns arbitrary: s) (simp_all add: task_cloned)

lemma fold_task_cloneErrors:
  "cloneErrors (fold (task w src dst) ns s) =
     fold (\<lambda>n. Store n (the (clone_result w src dst n)))
          (filter (\<lambda>n. clone_result w src dst n \<noteq> None) ns) (cloneErrors s)"
  by (induction ns arbitrary: s) (auto simp add: task_cloneErrors)

lemma fold_Store_map_of:
  "map_of (fold (\<lambda>n. Store n (g n)) ns m) =
     (\<lambda>k. if k \<in> set ns then Some (g k) else map_of m k)"
  by (induction ns arbitrary: m) (auto simp: Store_map_of fun_eq_iff)

lemma fold_Store_keys:
  "fst ` set (fold (\<lambda>n. Store n (g n)) ns m) = set ns \<union> fst ` set m"
  by (induction ns arbitrary: m) (auto simp: Store_keys)

lemma fold_Store_distinct:
  "distinct (map fst m) \<Longrightarrow> distinct (map fst (fold (\<lambda>n. Store n (g n)) ns m))"
  by (induction ns arbitrary: m) (auto simp: Store_distinct)

lemma mset_length_filter:
  "mset xs = mset ys \<Longrightarrow> length (filter P xs) = length (filter P ys)"
  by (metis mset_filter size_mset)

lemma Range_fold:
  "fold range_callback m (c, out) =
     (c + int (length m),
      out @ (if c = 0 \<and> m \<noteq> [] then [Println BlankLine] else [])
          @ map (\<lambda>(k, v). Println (CloneErrorLine k v)) m)" if "0 \<le> c"
  using that
proof (induction m arbitrary: c out)
  case Nil
  then show ?case by simp
next
  case (Cons p m)
  obtain k v where p: "p = (k, v)" by (cases p)
  have "0 \<le> c + 1" using Cons.prems by simp
  from Cons.IH [OF this] Cons.prems p show ?case by auto
qed

lemma Range_eq:
  "Range m = (int (length m),
              (if m \<noteq> [] then [Println BlankLine] else [])
              @ map (\<lambda>(k, v). Println (CloneErrorLine k v)) m)"
  unfolding Range_def using Range_fold [of 0 m "[]"] by simp

lemma preflight_trace:
  "snd (preflight w fl args) = [Subprocess rev_parse_argv] \<or>
   (\<exists>dst. snd (preflight w fl args) = [Subprocess rev_parse_argv, StatCall dst])"
  by (auto simp: preflight_def gitToplevel_def Let_def split: sum.splits list.splits)

lemmas demo_defs = demo_world_def demo_flags_def demo_args_def ascii_space_def
  listing_world_def flaky_world_def occupied_world_def refusing_world_def both_flags_def

lemma RunE_phases:
  assumes pre: "preflight w fl args = (Inr (src, dst, c), tr)"
    and reg: "git_Run w (''git'' # worktreeArgs fl src dst c) = None"
    and dir: "os_ReadDir w src = Inr entries"
    and s4: "s4 = fanOut w src dst (toClone entries)
               \<lparr>trace = tr @ [Subprocess (''git'' # worktreeArgs fl src dst c),
                               Println WorktreeAddLine, ReadDirCall src],
                cloned = 0, cloneErrors = []\<rparr>"
  shows "RunE w fl args =
     (case git_Run w (reset_argv dst) of
        Some e \<Rightarrow>
          (Some (GitResetFailed e),
           s4\<lparr>trace := trace s4 @ [Println (ClonefileLine (cloned s4)),
                                    Subprocess (reset_argv dst)]\<rparr>)
      | None \<Rightarrow>
          (if cloneErrors s4 = [] then None
           else Some (CloneErrorsOccurred (int (length (cloneErrors s4)))),
           s4\<lparr>trace := trace s4 @ [Println (ClonefileLine (cloned s4)),
                                    Subprocess (reset_argv dst), Println GitResetLine]
                          @ snd (Range (cloneErrors s4))
                          @ [Println TotalLine, Println (WorktreeLine dst)]\<rparr>))"
  using assms by (simp add: RunE_def pipeline_def emit_def Let_def Range_eq split: option.splits)

lemma fanOut_trace:
  "trace (fanOut w src dst ns s) = trace s @ map (clone_call w src dst) (schedule w ns)"
  by (simp add: fanOut_def fold_task_trace)

lemma fanOut_cloned:
  assumes "mset (schedule w ns) = mset ns"
  shows "cloned (fanOut w src dst ns s) =
           cloned s + int (length (filter (\<lambda>n. clone_result w src dst n = None) ns))"
  using mset_length_filter [OF assms] by (simp add: fanOut_def fold_task_cloned)

lemma fanOut_cloneErrors:
  "cloneErrors (fanOut w src dst ns s) =
     fold (\<lambda>n. Store n (the (clone_result w src dst n)))
          (filter (\<lambda>n. clone_result w src dst n \<noteq> None) (schedule w ns)) (cloneErrors s)"
  by (simp add: fanOut_def fold_task_cloneErrors)

lemma filter_clone_call_map [simp]:
  "filter is_clone_call (map (clone_call w src dst) ns) = map (clone_call w src dst) ns"
  by (induction ns) (simp_all add: clone_call_def)

lemma Range_no_clone_call [simp]: "e \<in> set (snd (Range m)) \<Longrightarrow> \<not> is_clone_call e"
  by (auto simp: Range_eq)

lemma filter_clone_call_preflight:
  "preflight w fl args = (r, tr) \<Longrightarrow> filter is_clone_call tr = []"
  using preflight_trace [of w fl args] by auto

lemma mset_singleton_list: "mset xs = mset [x] \<Longrightarrow> xs = [x]"
  by (cases xs) auto

section \<open>The properties\<close>

text \<open>
  C1. For a source tree with N top-level entries, none of them named \<open>.git\<close>, in which
  every clone call succeeds, the run counts N clones (the counter after the barrier, and
  the number printed in the \<open>clonefile:\<close> line) and records no clone error, in whatever
  order the scheduler completes the tasks. The preconditions say that the run reaches the
  fan-out: the pre-flight checks pass, \<open>git worktree add\<close> succeeds and the directory is
  read; the scheduler runs every launched task once.
\<close>

theorem all_clones_succeed:
  assumes pre: "preflight w fl args = (Inr (src, dst, c), tr)"
    and reg: "git_Run w (''git'' # worktreeArgs fl src dst c) = None"
    and dir: "os_ReadDir w src = Inr entries"
    and nogit: "''.git'' \<notin> set entries"
    and ok: "\<forall>n \<in> set entries. clone_result w src dst n = None"
    and sched: "mset (schedule w (toClone entries)) = mset (toClone entries)"
  shows "cloned (snd (RunE w fl args)) = int (length entries)
       \<and> cloneErrors (snd (RunE w fl args)) = []
       \<and> Println (ClonefileLine (int (length entries))) \<in> set (trace (snd (RunE w fl args)))"
proof -
  define s4 where "s4 = fanOut w src dst (toClone entries)
               \<lparr>trace = tr @ [Subprocess (''git'' # worktreeArgs fl src dst c),
                               Println WorktreeAddLine, ReadDirCall src],
                cloned = 0, cloneErrors = []\<rparr>"
  have ns: "toClone entries = entries"
    using nogit by (auto simp: toClone_filter filter_id_conv)
  have "set (schedule w entries) = set entries"
    using sched ns by (metis mset_eq_setD)
  then have none: "filter (\<lambda>n. clone_result w src dst n \<noteq> None) (schedule w entries) = []"
    using ok by (simp add: filter_empty_conv)
  have all: "filter (\<lambda>n. clone_result w src dst n = None) entries = entries"
    using ok by (simp add: filter_id_conv)
  have c: "cloned s4 = int (length entries)"
    unfolding s4_def using fanOut_cloned [OF sched, of src dst] ns all by simp
  have e: "cloneErrors s4 = []"
    unfolding s4_def using none by (simp add: fanOut_cloneErrors ns)
  show ?thesis
    using RunE_phases [OF pre reg dir s4_def] c e by (simp split: option.splits)
qed

theorem all_clones_succeed_witness:
  "cloned (snd (RunE listing_world demo_flags demo_args)) = 2
   \<and> cloneErrors (snd (RunE listing_world demo_flags demo_args)) = []
   \<and> Println (ClonefileLine 2) \<in> set (trace (snd (RunE listing_world demo_flags demo_args)))"
proof -
  have pre: "preflight listing_world demo_flags demo_args =
               (Inr (''/repo'', ''/tmp/wt'', []), [Subprocess rev_parse_argv, StatCall ''/tmp/wt''])"
    by (simp add: run_defs demo_defs)
  have reg: "git_Run listing_world (''git'' # worktreeArgs demo_flags ''/repo'' ''/tmp/wt'' []) = None"
    by (simp add: demo_defs)
  have dir: "os_ReadDir listing_world ''/repo'' = Inr [''src'', ''README.md'']"
    by (simp add: demo_defs)
  have nogit: "''.git'' \<notin> set [''src'', ''README.md'']"
    by simp
  have ok: "\<forall>n \<in> set [''src'', ''README.md'']. clone_result listing_world ''/repo'' ''/tmp/wt'' n = None"
    by (simp add: clone_result_def demo_defs)
  have sched: "mset (schedule listing_world (toClone [''src'', ''README.md''])) = mset (toClone [''src'', ''README.md''])"
    by (simp add: demo_defs)
  show ?thesis
    using all_clones_succeed [OF pre reg dir nogit ok sched] by simp
qed

text \<open>
  C2. When exactly one of the entries handed to the fan-out fails to clone and all the
  others succeed, the clone-errors map ends as exactly that entry with its reason, the
  counter ends at N - 1 for the N entries handed to the fan-out, a clone call has been made
  for every one of them, and \<open>git reset\<close> is run after the barrier; when the reset
  succeeds the run returns the error \<open>1 clone errors occurred\<close>.
\<close>

theorem one_clone_fails:
  assumes pre: "preflight w fl args = (Inr (src, dst, c), tr)"
    and reg: "git_Run w (''git'' # worktreeArgs fl src dst c) = None"
    and dir: "os_ReadDir w src = Inr entries"
    and one: "filter (\<lambda>n. clone_result w src dst n \<noteq> None) (toClone entries) = [f]"
    and why: "clone_result w src dst f = Some reason"
    and sched: "mset (schedule w (toClone entries)) = mset (toClone entries)"
  shows "cloneErrors (snd (RunE w fl args)) = [(f, reason)]
       \<and> cloned (snd (RunE w fl args)) = int (length (toClone entries)) - 1
       \<and> mset (filter is_clone_call (trace (snd (RunE w fl args))))
           = mset (map (clone_call w src dst) (toClone entries))
       \<and> Subprocess (reset_argv dst) \<in> set (trace (snd (RunE w fl args)))
       \<and> (git_Run w (reset_argv dst) = None \<longrightarrow>
            fst (RunE w fl args) = Some (CloneErrorsOccurred 1))"
proof -
  define s4 where "s4 = fanOut w src dst (toClone entries)
               \<lparr>trace = tr @ [Subprocess (''git'' # worktreeArgs fl src dst c),
                               Println WorktreeAddLine, ReadDirCall src],
                cloned = 0, cloneErrors = []\<rparr>"
  let ?bad = "\<lambda>n. clone_result w src dst n \<noteq> None"
  have bad: "filter ?bad (schedule w (toClone entries)) = [f]"
    using sched one by (metis mset_filter mset_singleton_list)
  have e: "cloneErrors s4 = [(f, reason)]"
    unfolding s4_def fanOut_cloneErrors bad using why by simp
  have "length (filter (\<lambda>n. clone_result w src dst n = None) (toClone entries))
          + length (filter ?bad (toClone entries)) = length (toClone entries)"
    using sum_length_filter_compl [of "\<lambda>n. clone_result w src dst n = None" "toClone entries"]
    by simp
  then have c: "cloned s4 = int (length (toClone entries)) - 1"
    unfolding s4_def using fanOut_cloned [OF sched, of src dst] one by simp
  have t: "trace s4 = tr @ [Subprocess (''git'' # worktreeArgs fl src dst c),
                            Println WorktreeAddLine, ReadDirCall src]
                      @ map (clone_call w src dst) (schedule w (toClone entries))"
    unfolding s4_def by (simp add: fanOut_trace)
  have "mset (map (clone_call w src dst) (schedule w (toClone entries)))
          = mset (map (clone_call w src dst) (toClone entries))"
    using sched by (metis mset_map)
  then have calls: "mset (filter is_clone_call (trace s4))
                      = mset (map (clone_call w src dst) (toClone entries))"
    using filter_clone_call_preflight [OF pre] by (simp add: t)
  show ?thesis
    using RunE_phases [OF pre reg dir s4_def] c e calls by (simp split: option.splits)
qed

theorem one_clone_fails_witness:
  "cloneErrors (snd (RunE flaky_world demo_flags demo_args)) = [(''README.md'', ''operation not permitted'')]
   \<and> cloned (snd (RunE flaky_world demo_flags demo_args)) = 1
   \<and> mset (filter is_clone_call (trace (snd (RunE flaky_world demo_flags demo_args))))
       = {#ClonefileCall ''/repo/src'' ''/tmp/wt/src'',
           ClonefileCall ''/repo/README.md'' ''/tmp/wt/README.md''#}
   \<and> Subprocess [''git'', ''-C'', ''/tmp/wt'', ''reset'', ''--no-refresh'']
        \<in> set (trace (snd (RunE flaky_world demo_flags demo_args)))
   \<and> fst (RunE flaky_world demo_flags demo_args) = Some (CloneErrorsOccurred 1)"
proof -
  have pre: "preflight flaky_world demo_flags demo_args =
               (Inr (''/repo'', ''/tmp/wt'', []), [Subprocess rev_parse_argv, StatCall ''/tmp/wt''])"
    by (simp add: run_defs demo_defs)
  have reg: "git_Run flaky_world (''git'' # worktreeArgs demo_flags ''/repo'' ''/tmp/wt'' []) = None"
    by (simp add: demo_defs)
  have dir: "os_ReadDir flaky_world ''/repo'' = Inr [''src'', ''README.md'', ''.git'']"
    by (simp add: demo_defs)
  have one: "filter (\<lambda>n. clone_result flaky_world ''/repo'' ''/tmp/wt'' n \<noteq> None)
               (toClone [''src'', ''README.md'', ''.git'']) = [''README.md'']"
    by (simp add: toClone_def clone_result_def demo_defs)
  have why: "clone_result flaky_world ''/repo'' ''/tmp/wt'' ''README.md'' = Some ''operation not permitted''"
    by (simp add: clone_result_def demo_defs)
  have sched: "mset (schedule flaky_world (toClone [''src'', ''README.md'', ''.git'']))
                 = mset (toClone [''src'', ''README.md'', ''.git''])"
    by (simp add: demo_defs)
  have reset: "git_Run flaky_world (reset_argv ''/tmp/wt'') = None"
    by (simp add: demo_defs)
  show ?thesis
    using one_clone_fails [OF pre reg dir one why sched] reset
    by (simp add: toClone_def clone_call_def reset_argv_def demo_defs)
qed

text \<open>
  C5. The loop that fills \<open>toClone\<close> drops the entries named \<open>.git\<close> and keeps every
  other entry, and the run issues one clone call for each entry kept and no other clone
  call. For a listing made of \<open>src\<close>, \<open>README.md\<close> and \<open>.git\<close>, in any order, the
  clone calls of the run are exactly two: the one for \<open>src\<close> and the one for
  \<open>README.md\<close>.
\<close>

theorem metadata_entry_excluded:
  assumes pre: "preflight w fl args = (Inr (src, dst, c), tr)"
    and reg: "git_Run w (''git'' # worktreeArgs fl src dst c) = None"
    and dir: "os_ReadDir w src = Inr entries"
    and sched: "mset (schedule w (toClone entries)) = mset (toClone entries)"
  shows "toClone entries = filter (\<lambda>n. n \<noteq> ''.git'') entries
       \<and> mset (filter is_clone_call (trace (snd (RunE w fl args))))
           = mset (map (clone_call w src dst) (filter (\<lambda>n. n \<noteq> ''.git'') entries))
       \<and> (mset entries = {#''src'', ''README.md'', ''.git''#} \<longrightarrow>
            mset (filter is_clone_call (trace (snd (RunE w fl args))))
              = {#clone_call w src dst ''src'', clone_call w src dst ''README.md''#})"
proof -
  define s4 where "s4 = fanOut w src dst (toClone entries)
               \<lparr>trace = tr @ [Subprocess (''git'' # worktreeArgs fl src dst c),
                               Println WorktreeAddLine, ReadDirCall src],
                cloned = 0, cloneErrors = []\<rparr>"
  have t: "trace s4 = tr @ [Subprocess (''git'' # worktreeArgs fl src dst c),
                            Println WorktreeAddLine, ReadDirCall src]
                      @ map (clone_call w src dst) (schedule w (toClone entries))"
    unfolding s4_def by (simp add: fanOut_trace)
  have "mset (map (clone_call w src dst) (schedule w (toClone entries)))
          = mset (map (clone_call w src dst) (toClone entries))"
    using sched by (metis mset_map)
  then have "mset (filter is_clone_call (trace s4))
               = mset (map (clone_call w src dst) (toClone entries))"
    using filter_clone_call_preflight [OF pre] by (simp add: t)
  then have calls: "mset (filter is_clone_call (trace (snd (RunE w fl args))))
                      = mset (map (clone_call w src dst) (filter (\<lambda>n. n \<noteq> ''.git'') entries))"
    using RunE_phases [OF pre reg dir s4_def] by (simp add: toClone_filter split: option.splits)
  have "mset (map (clone_call w src dst) (filter (\<lambda>n. n \<noteq> ''.git'') entries))
          = {#clone_call w src dst ''src'', clone_call w src dst ''README.md''#}"
    if "mset entries = {#''src'', ''README.md'', ''.git''#}"
  proof -
    have "mset (filter (\<lambda>n. n \<noteq> ''.git'') entries) = filter_mset (\<lambda>n. n \<noteq> ''.git'') (mset entries)"
      by simp
    also have "\<dots> = {#''src'', ''README.md''#}"
      unfolding that by simp
    finally have "image_mset (clone_call w src dst) (mset (filter (\<lambda>n. n \<noteq> ''.git'') entries))
                    = image_mset (clone_call w src dst) {#''src'', ''README.md''#}"
      by simp
    then show ?thesis by simp
  qed
  with calls show ?thesis by (simp add: toClone_filter)
qed

theorem metadata_entry_excluded_witness:
  "toClone [''src'', ''README.md'', ''.git''] = [''src'', ''README.md'']
   \<and> mset (filter is_clone_call (trace (snd (RunE demo_world demo_flags demo_args))))
       = {#ClonefileCall ''/repo/src'' ''/tmp/wt/src'',
           ClonefileCall ''/repo/README.md'' ''/tmp/wt/README.md''#}"
proof -
  have pre: "preflight demo_world demo_flags demo_args =
               (Inr (''/repo'', ''/tmp/wt'', []), [Subprocess rev_parse_argv, StatCall ''/tmp/wt''])"
    by (simp add: run_defs demo_defs)
  have reg: "git_Run demo_world (''git'' # worktreeArgs demo_flags ''/repo'' ''/tmp/wt'' []) = None"
    by (simp add: demo_defs)
  have dir: "os_ReadDir demo_world ''/repo'' = Inr [''src'', ''README.md'', ''.git'']"
    by (simp add: demo_defs)
  have sched: "mset (schedule demo_world (toClone [''src'', ''README.md'', ''.git'']))
                 = mset (toClone [''src'', ''README.md'', ''.git''])"
    by (simp add: demo_defs)
  show ?thesis
    using metadata_entry_excluded [OF pre reg dir sched]
    by (simp add: clone_call_def demo_defs)
qed

text \<open>
  C6. When the \<open>git worktree add\<close> subprocess fails, the run returns
  \<open>git worktree add failed\<close> right after it: the trace ends with that subprocess, no
  clone call is made, and nothing is printed, in particular no line about a clone error.
\<close>

theorem registration_failure_halts:
  assumes pre: "preflight w fl args = (Inr (src, dst, c), tr)"
    and reg: "git_Run w (''git'' # worktreeArgs fl src dst c) = Some e"
  shows "RunE w fl args =
           (Some WorktreeAddFailed,
            \<lparr>trace = tr @ [Subprocess (''git'' # worktreeArgs fl src dst c)],
             cloned = 0, cloneErrors = []\<rparr>)
       \<and> filter is_clone_call (trace (snd (RunE w fl args))) = []
       \<and> filter is_clone_diagnostic (trace (snd (RunE w fl args))) = []
       \<and> filter is_println (trace (snd (RunE w fl args))) = []"
proof -
  have run: "RunE w fl args =
           (Some WorktreeAddFailed,
            \<lparr>trace = tr @ [Subprocess (''git'' # worktreeArgs fl src dst c)],
             cloned = 0, cloneErrors = []\<rparr>)"
    using pre reg by (simp add: RunE_def pipeline_def emit_def Let_def)
  have "snd (preflight w fl args) = tr"
    using pre by simp
  then have "filter is_clone_call tr = [] \<and> filter is_clone_diagnostic tr = []
             \<and> filter is_println tr = []"
    using preflight_trace [of w fl args] by auto
  then show ?thesis
    unfolding run by simp
qed

theorem registration_failure_halts_witness:
  "RunE refusing_world demo_flags demo_args =
     (Some WorktreeAddFailed,
      \<lparr>trace = [Subprocess [''git'', ''rev-parse'', ''--show-toplevel''], StatCall ''/tmp/wt'',
                Subprocess [''git'', ''-C'', ''/repo'', ''worktree'', ''add'', ''--no-checkout'',
                            ''--detach'', ''/tmp/wt'']],
       cloned = 0, cloneErrors = []\<rparr>)
   \<and> filter is_clone_call (trace (snd (RunE refusing_world demo_flags demo_args))) = []
   \<and> filter is_clone_diagnostic (trace (snd (RunE refusing_world demo_flags demo_args))) = []"
proof -
  have pre: "preflight refusing_world demo_flags demo_args =
               (Inr (''/repo'', ''/tmp/wt'', []), [Subprocess rev_parse_argv, StatCall ''/tmp/wt''])"
    by (simp add: run_defs demo_defs)
  have reg: "git_Run refusing_world (''git'' # worktreeArgs demo_flags ''/repo'' ''/tmp/wt'' [])
               = Some ''exit status 128''"
    by (simp add: demo_defs)
  show ?thesis
    using registration_failure_halts [OF pre reg]
    by (simp add: worktreeArgs_def rev_parse_argv_def demo_defs)
qed

end
